theory Spec2Isabelle
  imports Complex_Main "HOL-Library.Word"
begin

section \<open>Attachment ingestion: the \<open>InputArea\<close> component\<close>

text \<open>
  The component \<open>InputArea\<close> keeps its state in React hooks: \<open>input\<close>, \<open>attachments\<close>,
  \<open>isProcessing\<close> (\<open>useState\<close>) and \<open>activeReaders\<close> (\<open>useRef\<close>, an array of
  \<open>FileReader\<close> objects). Each handler is modelled as a function from the state before the
  handler runs to the state after it has returned. A call of a state setter is a field
  update (within one handler the last call wins, as in React); a call of \<open>alert\<close> or of
  \<open>console.error\<close> appends to a log.
\<close>

subsection \<open>Data\<close>

type_synonym byte = "8 word"

text \<open>A DOM \<open>File\<close>: declared MIME type, name, size and content.\<close>

record File =
  ftype :: string
  fname :: string
  fsize :: nat
  fbytes :: "byte list"

text \<open>
  \<open>interface Attachment\<close> of \<open>types.ts\<close>. The field \<open>data\<close> is typed \<open>string\<close>, but
  \<open>processFiles\<close> stores \<open>result.split(',')[1]\<close> there, which is \<open>undefined\<close> when the
  index is out of range: \<open>None\<close> stands for \<open>undefined\<close>.
\<close>

record Attachment =
  mimeType :: string
  data :: "string option"
  url :: string
  name :: string
  size_bytes :: nat

text \<open>\<open>interface Message\<close> of \<open>types.ts\<close> (\<open>isAudioPlaying\<close> is never written).\<close>

datatype role = user | model

record Message =
  mid :: string
  mrole :: role
  mtext :: string
  mattachments :: "Attachment list"
  timestamp :: nat

text \<open>A \<open>FileReader\<close> object is identified by the order of its creation.\<close>

type_synonym reader = nat

record InputArea =
  input :: string
  attachments :: "Attachment list"
  isDragging :: bool
  isProcessing :: bool
  activeReaders :: "reader list"
  loading :: "reader \<rightharpoonup> File"
  nextReader :: nat
  alerts :: "string list"
  console :: "string list"

text \<open>
  \<open>loading\<close> is the browser's side of the readers: the readers whose state is
  \<open>LOADING\<close>, each with the file it reads. \<open>nextReader\<close> numbers the objects
  \<open>new FileReader()\<close> creates.
\<close>

definition initialInputArea :: InputArea where
  "initialInputArea =
     \<lparr>input = [], attachments = [], isDragging = False, isProcessing = False, activeReaders = [],
      loading = Map.empty, nextReader = 0, alerts = [], console = []\<rparr>"

subsection \<open>String primitives of JavaScript\<close>

text \<open>\<open>s.startsWith(p)\<close>.\<close>

definition startsWith :: "string \<Rightarrow> string \<Rightarrow> bool" where
  "startsWith s p = (take (length p) s = p)"

text \<open>
  \<open>s.split(',')\<close>: the segments between the commas; a string without a comma is its only
  segment.
\<close>

fun split_comma :: "string \<Rightarrow> string list" where
  "split_comma [] = [[]]"
| "split_comma (c # cs) =
     (if c = CHR '','' then [] # split_comma cs
      else (case split_comma cs of
              [] \<Rightarrow> [[c]]
            | seg # segs \<Rightarrow> (c # seg) # segs))"

text \<open>\<open>xs[i]\<close> of JavaScript: \<open>undefined\<close> out of range.\<close>

definition index :: "'a list \<Rightarrow> nat \<Rightarrow> 'a option" where
  "index xs i = (if i < length xs then Some (xs ! i) else None)"

subsection \<open>\<open>processFiles\<close>\<close>

text \<open>
  One round of \<open>validFiles.forEach\<close>: a new reader is pushed on \<open>activeReaders\<close>, its
  handlers are installed and \<open>readAsDataURL(file)\<close> puts it in state \<open>LOADING\<close>.
\<close>

definition startReader :: "InputArea \<Rightarrow> File \<Rightarrow> InputArea" where
  "startReader s file =
     (let reader = nextReader s in
      s\<lparr>activeReaders := activeReaders s @ [reader],
        loading := (loading s)(reader \<mapsto> file),
        nextReader := Suc reader\<rparr>)"

definition validFiles :: "File list \<Rightarrow> File list" where
  "validFiles files = filter (\<lambda>f. startsWith (ftype f) ''image/'') files"

definition processFiles :: "File list \<Rightarrow> InputArea \<Rightarrow> InputArea" where
  "processFiles files s =
     (if length (validFiles files) = 0 \<and> length files > 0
      then s\<lparr>alerts := alerts s @ [''Only image files are supported.'']\<rparr>
      else foldl startReader (s\<lparr>isProcessing := True\<rparr>) (validFiles files))"

subsection \<open>Resolution of a conversion\<close>

definition cleanupReader :: "reader \<Rightarrow> InputArea \<Rightarrow> InputArea" where
  "cleanupReader reader s =
     (let s1 = s\<lparr>activeReaders := remove1 reader (activeReaders s)\<rparr> in
      if length (activeReaders s1) = 0 then s1\<lparr>isProcessing := False\<rparr> else s1)"

text \<open>
  \<open>indexOf\<close> followed by \<open>splice(index, 1)\<close> removes the first occurrence of the reader and
  nothing when it does not occur, which is \<^const>\<open>remove1\<close>.

  The three handlers \<open>processFiles\<close> installs on a reader; \<open>file\<close> and \<open>reader\<close> are the
  variables of the closure, \<open>result\<close> is \<open>e.target.result\<close>.
\<close>

definition newAttachment :: "File \<Rightarrow> string \<Rightarrow> Attachment" where
  "newAttachment file result =
     \<lparr>mimeType = ftype file, data = index (split_comma result) 1, url = result,
      name = fname file, size_bytes = fsize file\<rparr>"

definition onload :: "File \<Rightarrow> reader \<Rightarrow> string \<Rightarrow> InputArea \<Rightarrow> InputArea" where
  "onload file reader result s =
     cleanupReader reader (s\<lparr>attachments := attachments s @ [newAttachment file result]\<rparr>)"

definition onerror :: "reader \<Rightarrow> InputArea \<Rightarrow> InputArea" where
  "onerror reader s = cleanupReader reader (s\<lparr>console := console s @ [''Error reading file'']\<rparr>)"

definition onabort :: "reader \<Rightarrow> InputArea \<Rightarrow> InputArea" where
  "onabort reader s = cleanupReader reader s"

text \<open>
  The browser's side (File API). A reader in state \<open>LOADING\<close> ends in exactly one of three
  ways, and its state is \<open>DONE\<close> when the handler runs: the read succeeds and \<open>load\<close> fires
  with the result, the read fails and \<open>error\<close> fires, or \<open>abort()\<close> is called. Nothing
  fires on a reader that is not \<open>LOADING\<close>.
\<close>

definition fireLoad :: "reader \<Rightarrow> string \<Rightarrow> InputArea \<Rightarrow> InputArea" where
  "fireLoad reader result s =
     (case loading s reader of
        None \<Rightarrow> s
      | Some file \<Rightarrow> onload file reader result (s\<lparr>loading := (loading s)(reader := None)\<rparr>))"

definition fireError :: "reader \<Rightarrow> InputArea \<Rightarrow> InputArea" where
  "fireError reader s =
     (case loading s reader of
        None \<Rightarrow> s
      | Some file \<Rightarrow> onerror reader (s\<lparr>loading := (loading s)(reader := None)\<rparr>))"

text \<open>
  \<open>reader.abort()\<close>: the File API has \<open>abort()\<close> set the state to \<open>DONE\<close>, drop the
  reader's queued tasks and fire \<open>abort\<close> before it returns, so \<open>onabort\<close> runs inside the
  call. On a reader that is not \<open>LOADING\<close> the call does nothing.
\<close>

definition abort :: "reader \<Rightarrow> InputArea \<Rightarrow> InputArea" where
  "abort reader s =
     (case loading s reader of
        None \<Rightarrow> s
      | Some file \<Rightarrow> onabort reader (s\<lparr>loading := (loading s)(reader := None)\<rparr>))"

subsection \<open>\<open>cancelUpload\<close>, \<open>removeAttachment\<close>, \<open>clearAttachments\<close>\<close>

text \<open>
  \<open>activeReaders.current.forEach(reader => reader.abort())\<close>. \<open>Array.prototype.forEach\<close>
  reads the length once, then visits the indices \<open>0, 1, ...\<close> below it, reading each element
  from the array as it is at that moment and skipping an index the array no longer has. The
  array it walks is the one \<open>cleanupReader\<close> splices.
\<close>

function forEach_abort :: "nat \<Rightarrow> nat \<Rightarrow> InputArea \<Rightarrow> InputArea" where
  "forEach_abort k len s =
     (if k < len
      then forEach_abort (Suc k) len
             (case index (activeReaders s) k of
                None \<Rightarrow> s
              | Some reader \<Rightarrow> abort reader s)
      else s)"
  by pat_completeness auto
termination
  by (relation "measure (\<lambda>(k, len, s). len - k)") auto

definition cancelUpload :: "InputArea \<Rightarrow> InputArea" where
  "cancelUpload s =
     (forEach_abort 0 (length (activeReaders s)) s)\<lparr>activeReaders := [], isProcessing := False\<rparr>"

text \<open>\<open>prev.filter((_, i) => i !== index)\<close>.\<close>

definition removeAttachment :: "nat \<Rightarrow> InputArea \<Rightarrow> InputArea" where
  "removeAttachment i s =
     s\<lparr>attachments := map snd (filter (\<lambda>p. fst p \<noteq> i) (enumerate 0 (attachments s)))\<rparr>"

definition clearAttachments :: "InputArea \<Rightarrow> InputArea" where
  "clearAttachments s = (cancelUpload s)\<lparr>attachments := []\<rparr>"

subsection \<open>The three entry points\<close>

text \<open>\<open>e.target.files\<close> and \<open>e.dataTransfer.files\<close> may be \<open>null\<close>: \<open>None\<close>.\<close>

definition handleFileChange :: "File list option \<Rightarrow> InputArea \<Rightarrow> InputArea" where
  "handleFileChange files s =
     (case files of
        None \<Rightarrow> s
      | Some fs \<Rightarrow> if length fs > 0 then processFiles fs s else s)"

definition onDrop :: "File list option \<Rightarrow> InputArea \<Rightarrow> InputArea" where
  "onDrop files s =
     (let s1 = s\<lparr>isDragging := False\<rparr> in
      case files of
        None \<Rightarrow> s1
      | Some fs \<Rightarrow> if length fs > 0 then processFiles fs s1 else s1)"

text \<open>
  A clipboard item has a type and, through \<open>getAsFile()\<close>, a file or \<open>null\<close>.
  \<open>t.indexOf('image') !== -1\<close> is substring containment.
\<close>

record ClipboardItem =
  itype :: string
  asFile :: "File option"

definition contains :: "string \<Rightarrow> string \<Rightarrow> bool" where
  "contains s p = list_ex (\<lambda>i. take (length p) (drop i s) = p) [0..<Suc (length s)]"

definition pastedFiles :: "ClipboardItem list \<Rightarrow> File list" where
  "pastedFiles items =
     concat (map (\<lambda>it. if contains (itype it) ''image''
                        then (case asFile it of None \<Rightarrow> [] | Some blob \<Rightarrow> [blob])
                        else []) items)"

definition handlePaste :: "ClipboardItem list \<Rightarrow> InputArea \<Rightarrow> InputArea" where
  "handlePaste items s =
     (if length (pastedFiles items) > 0 then processFiles (pastedFiles items) s else s)"

subsection \<open>\<open>readAsDataURL\<close>\<close>

text \<open>
  The browser's side again. \<open>readAsDataURL\<close> gives the file as a data URL (RFC 2397):
  \<open>data:\<close>, a media type, \<open>;base64,\<close> and the base64 text of the bytes (RFC 4648:
  three bytes make four characters of the alphabet \<open>A-Z a-z 0-9 + /\<close>, and \<open>=\<close> pads the
  last group). \<open>decode64\<close> is the decoding of that text, as the receiver of an attachment
  does it.
\<close>

definition sextet :: "nat \<Rightarrow> char" where
  "sextet n =
     (if n < 26 then char_of (65 + n)
      else if n < 52 then char_of (71 + n)
      else if n < 62 then char_of (n - 4)
      else if n = 62 then CHR ''+''
      else CHR ''/'')"

definition unsextet :: "char \<Rightarrow> nat option" where
  "unsextet c =
     (let k = (of_char c :: nat) in
      if 65 \<le> k \<and> k \<le> 90 then Some (k - 65)
      else if 97 \<le> k \<and> k \<le> 122 then Some (k - 71)
      else if 48 \<le> k \<and> k \<le> 57 then Some (k + 4)
      else if k = 43 then Some 62
      else if k = 47 then Some 63
      else None)"

fun base64 :: "byte list \<Rightarrow> string" where
  "base64 (a # b # c # rest) =
     [sextet (unat a div 4),
      sextet (unat a mod 4 * 16 + unat b div 16),
      sextet (unat b mod 16 * 4 + unat c div 64),
      sextet (unat c mod 64)] @ base64 rest"
| "base64 [a, b] =
     [sextet (unat a div 4),
      sextet (unat a mod 4 * 16 + unat b div 16),
      sextet (unat b mod 16 * 4),
      CHR ''='']"
| "base64 [a] =
     [sextet (unat a div 4), sextet (unat a mod 4 * 16), CHR ''='', CHR ''='']"
| "base64 [] = []"

fun decode64 :: "string \<Rightarrow> byte list option" where
  "decode64 (p # q # r # s # rest) =
     (case (unsextet p, unsextet q) of
        (Some x, Some y) \<Rightarrow>
          if r = CHR ''='' \<and> s = CHR ''='' \<and> rest = [] then Some [of_nat (x * 4 + y div 16)]
          else
            (case unsextet r of
               None \<Rightarrow> None
             | Some z \<Rightarrow>
                 if s = CHR ''='' \<and> rest = []
                 then Some [of_nat (x * 4 + y div 16), of_nat (y mod 16 * 16 + z div 4)]
                 else
                   (case unsextet s of
                      None \<Rightarrow> None
                    | Some w \<Rightarrow>
                        (case decode64 rest of
                           None \<Rightarrow> None
                         | Some bs \<Rightarrow>
                             Some (of_nat (x * 4 + y div 16)
                                   # of_nat (y mod 16 * 16 + z div 4)
                                   # of_nat (z mod 4 * 64 + w) # bs))))
      | _ \<Rightarrow> None)"
| "decode64 [] = Some []"
| "decode64 _ = None"

definition dataURL :: "string \<Rightarrow> byte list \<Rightarrow> string" where
  "dataURL mediatype bytes = ''data:'' @ mediatype @ '';base64,'' @ base64 bytes"

text \<open>
  The File API has the declared type of the file written as the media type where that is
  in keeping with RFC 2397. A media type of RFC 2397 holds no comma: the first comma of
  a data URL is the one that ends the prefix. For a declared type with a comma in it the
  media type written is \<open>application/octet-stream\<close>, that of a file which declares none;
  any other declared type is written as it is.
\<close>

definition mediaType :: "File \<Rightarrow> string" where
  "mediaType file =
     (if CHR '','' \<in> set (ftype file) then ''application/octet-stream'' else ftype file)"

definition readAsDataURL :: "File \<Rightarrow> string" where
  "readAsDataURL file = dataURL (mediaType file) (fbytes file)"

subsection \<open>The conversions as events\<close>

text \<open>
  The ways a conversion ends. \<open>Aborted\<close> happens only inside \<open>cancelUpload\<close>, which is
  the only caller of \<open>abort()\<close>.
\<close>

datatype outcome = Loaded string | Failed | Aborted

definition resolve :: "reader \<Rightarrow> outcome \<Rightarrow> InputArea \<Rightarrow> InputArea" where
  "resolve reader out s =
     (case out of
        Loaded result \<Rightarrow> fireLoad reader result s
      | Failed \<Rightarrow> fireError reader s
      | Aborted \<Rightarrow> abort reader s)"

text \<open>
  The relation between the two pieces of bookkeeping that the handlers keep: the flag is set
  exactly while a reader is tracked.
\<close>

definition flagInv :: "InputArea \<Rightarrow> bool" where
  "flagInv s = (isProcessing s = (activeReaders s \<noteq> []))"

subsection \<open>\<open>handleSend\<close>\<close>

text \<open>
  \<open>String.prototype.trim\<close> removes white space at both ends. A character of the model is
  one of the first 256 code units, of which these are white space or line terminators.
\<close>

definition isWhiteSpace :: "char \<Rightarrow> bool" where
  "isWhiteSpace c =
     (c \<in> set [CHR 0x09, CHR 0x0A, CHR 0x0B, CHR 0x0C, CHR 0x0D, CHR 0x20, CHR 0xA0])"

definition trim :: "string \<Rightarrow> string" where
  "trim s = rev (dropWhile isWhiteSpace (rev (dropWhile isWhiteSpace s)))"

text \<open>The template literal that quotes the message replied to.\<close>

definition finalText :: "Message option \<Rightarrow> string \<Rightarrow> string" where
  "finalText quotedMessage inp =
     (case quotedMessage of
        None \<Rightarrow> inp
      | Some q \<Rightarrow>
          ''[Replying to]: '' @ [CHR 0x22] @ take 200 (mtext q)
            @ (if length (mtext q) > 200 then ''...'' else [])
            @ [CHR 0x22, CHR 0x0A, CHR 0x0A] @ ''[My Message]: '' @ inp)"

text \<open>
  What \<open>handleSend\<close> calls on its props: \<open>onSendMessage(finalText, attachments)\<close> and
  \<open>onClearQuote()\<close>.
\<close>

record SendCalls =
  onSendMessage :: "(string \<times> Attachment list) option"
  onClearQuote :: bool

definition handleSend :: "bool \<Rightarrow> Message option \<Rightarrow> InputArea \<Rightarrow> InputArea \<times> SendCalls" where
  "handleSend isLoading quotedMessage s =
     (if (trim (input s) = [] \<and> length (attachments s) = 0) \<or> isLoading \<or> isProcessing s
      then (s, \<lparr>onSendMessage = None, onClearQuote = False\<rparr>)
      else (s\<lparr>input := [], attachments := []\<rparr>,
            \<lparr>onSendMessage = Some (finalText quotedMessage (input s), attachments s),
             onClearQuote = (quotedMessage \<noteq> None)\<rparr>))"

definition handleInput :: "string \<Rightarrow> InputArea \<Rightarrow> InputArea" where
  "handleInput v s = s\<lparr>input := v\<rparr>"

subsection \<open>Runs of the component\<close>

text \<open>
  Everything that changes the state of \<open>InputArea\<close>: its handlers and the endings of the
  conversions. \<open>Send\<close> carries the props \<open>isLoading\<close> and \<open>quotedMessage\<close> of that moment.
\<close>

datatype event =
    FileChange "File list option"
  | Paste "ClipboardItem list"
  | Drop "File list option"
  | DragOver
  | DragLeave
  | Resolve reader outcome
  | CancelUpload
  | RemoveAttachment nat
  | ClearAttachments
  | Input string
  | Send bool "Message option"

fun step :: "InputArea \<Rightarrow> event \<Rightarrow> InputArea" where
  "step s (FileChange files) = handleFileChange files s"
| "step s (Paste items) = handlePaste items s"
| "step s (Drop files) = onDrop files s"
| "step s DragOver = s\<lparr>isDragging := True\<rparr>"
| "step s DragLeave = s\<lparr>isDragging := False\<rparr>"
| "step s (Resolve reader out) = resolve reader out s"
| "step s CancelUpload = cancelUpload s"
| "step s (RemoveAttachment i) = removeAttachment i s"
| "step s ClearAttachments = clearAttachments s"
| "step s (Input v) = handleInput v s"
| "step s (Send isLoading quotedMessage) = fst (handleSend isLoading quotedMessage s)"

definition run :: "event list \<Rightarrow> InputArea" where
  "run evs = foldl step initialInputArea evs"

section \<open>Speech playback and settings: the \<open>App\<close> component\<close>

subsection \<open>Numbers and \<open>parseFloat\<close>\<close>

text \<open>
  A JavaScript number, as far as the playback rate needs it: a finite value, \<open>NaN\<close> or an
  infinity. A finite value is kept as the exact rational the decimal text denotes; the
  rounding to a double is not modelled.
\<close>

datatype jsnum = Num rat | NaN | PosInfinity | NegInfinity

definition isDigit :: "char \<Rightarrow> bool" where
  "isDigit c = (48 \<le> (of_char c :: nat) \<and> (of_char c :: nat) \<le> 57)"

definition digitsVal :: "string \<Rightarrow> nat" where
  "digitsVal ds = foldl (\<lambda>n c. 10 * n + ((of_char c :: nat) - 48)) 0 ds"

text \<open>
  The exponent part of a decimal literal: \<open>e\<close> or \<open>E\<close>, an optional sign and at least one
  digit. Without a digit there is no exponent part and the literal ends before the \<open>e\<close>.
\<close>

definition exponentPart :: "string \<Rightarrow> int" where
  "exponentPart s =
     (case s of
        [] \<Rightarrow> 0
      | c # cs \<Rightarrow>
          if c = CHR ''e'' \<or> c = CHR ''E'' then
            (case cs of
               [] \<Rightarrow> 0
             | d # ds \<Rightarrow>
                 if d = CHR ''-'' then - int (digitsVal (takeWhile isDigit ds))
                 else if d = CHR ''+'' then int (digitsVal (takeWhile isDigit ds))
                 else int (digitsVal (takeWhile isDigit cs)))
          else 0)"

definition scale10 :: "rat \<Rightarrow> int \<Rightarrow> rat" where
  "scale10 q e = (if 0 \<le> e then q * 10 ^ nat e else q / 10 ^ nat (- e))"

text \<open>
  The global \<open>parseFloat\<close>: leading white space is skipped, then the longest prefix that is
  a decimal literal (sign, \<open>Infinity\<close> or digits with an optional fraction and exponent) is
  read; \<open>NaN\<close> when there is none.
\<close>

definition parseUnsigned :: "string \<Rightarrow> jsnum" where
  "parseUnsigned s =
     (let ip = takeWhile isDigit s;
          r = dropWhile isDigit s;
          hasDot = (case r of [] \<Rightarrow> False | c # _ \<Rightarrow> c = CHR ''.'');
          fp = (if hasDot then takeWhile isDigit (tl r) else []);
          r2 = (if hasDot then dropWhile isDigit (tl r) else r)
      in if startsWith s ''Infinity'' then PosInfinity
         else if ip = [] \<and> fp = [] then NaN
         else Num (scale10 (of_nat (digitsVal (ip @ fp))) (exponentPart r2 - int (length fp))))"

definition negate :: "jsnum \<Rightarrow> jsnum" where
  "negate x =
     (case x of Num q \<Rightarrow> Num (- q) | NaN \<Rightarrow> NaN
      | PosInfinity \<Rightarrow> NegInfinity | NegInfinity \<Rightarrow> PosInfinity)"

definition parseFloat :: "string \<Rightarrow> jsnum" where
  "parseFloat str =
     (case dropWhile isWhiteSpace str of
        [] \<Rightarrow> NaN
      | c # cs \<Rightarrow>
          if c = CHR ''-'' then negate (parseUnsigned cs)
          else if c = CHR ''+'' then parseUnsigned cs
          else parseUnsigned (c # cs))"

subsection \<open>State\<close>

text \<open>
  \<open>handleSpeak\<close> is an \<open>async\<close> function: a call runs to its first \<open>await\<close> and is then
  suspended until the awaited promise settles. A suspended call is a \<open>SpeakTask\<close>: the
  \<open>await\<close> it waits at and the variables of its closure.
\<close>

datatype phase = Resuming | Synthesising | Decoding | Playing

record SpeakTask =
  tmessage :: Message
  tvoice :: string
  tspeed :: jsnum
  tautoSpeak :: bool
  tphase :: phase

datatype ctx_state = suspended | running | closed

text \<open>
  The \<open>useState\<close> and \<open>useRef\<close> cells of \<open>App\<close>, and the world around them:
  \<open>tasks\<close>, the suspended calls of \<open>handleSpeak\<close>, numbered in the order of the calls;
  \<open>audible\<close>, the buffer sources that have been started on the output and have neither
  ended nor been stopped, each named by the call that started it; the two logs.
\<close>

record App =
  messages :: "Message list"
  isLoading :: bool
  isSpeakingId :: "string option"
  speakingLoading :: bool
  selectedVoice :: string
  ttsSpeed :: jsnum
  autoSpeak :: bool
  searchQuery :: string
  isSearchActive :: bool
  quotedMessage :: "Message option"
  audioContextRef :: "ctx_state option"
  activeSourceRef :: "nat option"
  tasks :: "nat \<rightharpoonup> SpeakTask"
  nextTask :: nat
  audible :: "nat list"
  alertsApp :: "string list"
  consoleApp :: "string list"

definition initialApp :: App where
  "initialApp =
     \<lparr>messages = [], isLoading = False, isSpeakingId = None, speakingLoading = False,
      selectedVoice = ''Kore'', ttsSpeed = Num 1, autoSpeak = False, searchQuery = [],
      isSearchActive = False, quotedMessage = None, audioContextRef = None,
      activeSourceRef = None, tasks = Map.empty, nextTask = 0, audible = [],
      alertsApp = [], consoleApp = []\<rparr>"

subsection \<open>Settings\<close>

text \<open>
  The mount effect reads the two settings back: \<open>if (savedSpeed)
  setTtsSpeed(parseFloat(savedSpeed))\<close> and the same for the voice. \<open>getItem\<close> gives
  \<open>null\<close> (\<open>None\<close>) for a missing key; \<open>null\<close> and the empty string are falsy.
\<close>

definition loadSettings :: "string option \<Rightarrow> string option \<Rightarrow> App \<Rightarrow> App" where
  "loadSettings savedSpeed savedVoice s =
     (let s1 = (case savedSpeed of
                  None \<Rightarrow> s
                | Some speed \<Rightarrow> if speed = [] then s else s\<lparr>ttsSpeed := parseFloat speed\<rparr>)
      in case savedVoice of
           None \<Rightarrow> s1
         | Some voice \<Rightarrow> if voice = [] then s1 else s1\<lparr>selectedVoice := voice\<rparr>)"

text \<open>The \<open>onChange\<close> of the speed slider: \<open>setTtsSpeed(parseFloat(e.target.value))\<close>.\<close>

definition onSpeedChange :: "string \<Rightarrow> App \<Rightarrow> App" where
  "onSpeedChange v s = s\<lparr>ttsSpeed := parseFloat v\<rparr>"

text \<open>
  The slider is \<open><input type="range" min="0.5" max="2.0" step="0.1">\<close>: the values the
  control can hold, as the browser writes them.
\<close>

definition sliderValues :: "string list" where
  "sliderValues =
     [''0.5'', ''0.6'', ''0.7'', ''0.8'', ''0.9'', ''1'', ''1.1'', ''1.2'', ''1.3'', ''1.4'',
      ''1.5'', ''1.6'', ''1.7'', ''1.8'', ''1.9'', ''2'']"

text \<open>The range of the specification: \<open>[0.5, 2.0]\<close> in steps of \<open>0.1\<close>.\<close>

definition rateInSpecRange :: "jsnum \<Rightarrow> bool" where
  "rateInSpecRange x =
     (case x of
        Num q \<Rightarrow> q \<in> set (map (\<lambda>k. of_nat k / 10) [5..<21])
      | NaN \<Rightarrow> False | PosInfinity \<Rightarrow> False | NegInfinity \<Rightarrow> False)"

subsection \<open>\<open>stopAudio\<close> and \<open>handleSpeak\<close>\<close>

text \<open>
  \<open>stopAudio\<close> stops the source \<open>activeSourceRef\<close> holds, if it holds one (a throw of
  \<open>stop()\<close> is swallowed), and clears \<open>isSpeakingId\<close>.
\<close>

definition stopAudio :: "App \<Rightarrow> App" where
  "stopAudio s =
     (case activeSourceRef s of
        None \<Rightarrow> s\<lparr>isSpeakingId := None\<rparr>
      | Some src \<Rightarrow>
          s\<lparr>audible := removeAll src (audible s), activeSourceRef := None,
            isSpeakingId := None\<rparr>)"

definition suspend :: "SpeakTask \<Rightarrow> App \<Rightarrow> App" where
  "suspend t s = s\<lparr>tasks := (tasks s)(nextTask s \<mapsto> t), nextTask := Suc (nextTask s)\<rparr>"

text \<open>
  \<open>handleSpeak(message)\<close> up to its first \<open>await\<close>. \<open>fresh\<close> is the state in which the
  browser creates an \<open>AudioContext\<close>, should this call create it (the constructor is
  taken to succeed). The first \<open>await\<close> is \<open>resume()\<close> when the context is suspended and
  \<open>generateSpeech\<close> otherwise. The state cells are read at their current values: the
  handler in use is the one of the latest render.
\<close>

definition handleSpeak :: "Message \<Rightarrow> ctx_state \<Rightarrow> App \<Rightarrow> App" where
  "handleSpeak message fresh s =
     (if isSpeakingId s = Some (mid message) then stopAudio s
      else
        let s1 = (stopAudio s)\<lparr>speakingLoading := True, isSpeakingId := Some (mid message)\<rparr>;
            s2 = (case audioContextRef s1 of
                    None \<Rightarrow> s1\<lparr>audioContextRef := Some fresh\<rparr>
                  | Some c \<Rightarrow> s1)
        in suspend
             \<lparr>tmessage = message, tvoice = selectedVoice s, tspeed = ttsSpeed s,
              tautoSpeak = autoSpeak s,
              tphase = (if audioContextRef s2 = Some suspended then Resuming else Synthesising)\<rparr>
             s2)"

text \<open>The \<open>catch\<close> block of \<open>handleSpeak\<close>, run by the call numbered \<open>tid\<close>.\<close>

definition catchBlock :: "nat \<Rightarrow> SpeakTask \<Rightarrow> App \<Rightarrow> App" where
  "catchBlock tid t s =
     s\<lparr>consoleApp := consoleApp s @ [''TTS Error:''],
       alertsApp := (if \<not> tautoSpeak t
                     then alertsApp s @ [''Failed to generate speech. Please check your API Key.'']
                     else alertsApp s),
       isSpeakingId := None,
       speakingLoading := False,
       tasks := (tasks s)(tid := None)\<rparr>"

text \<open>A promise settles: it is fulfilled with a value or rejected.\<close>

datatype 'a settled = Fulfilled 'a | Rejected

text \<open>\<open>await audioContextRef.current.resume()\<close> settles.\<close>

definition resumeSettled :: "nat \<Rightarrow> unit settled \<Rightarrow> App \<Rightarrow> App" where
  "resumeSettled tid r s =
     (case tasks s tid of
        None \<Rightarrow> s
      | Some t \<Rightarrow>
          if tphase t \<noteq> Resuming then s
          else (case r of
                  Rejected \<Rightarrow> catchBlock tid t s
                | Fulfilled u \<Rightarrow>
                    s\<lparr>audioContextRef := Some running,
                      tasks := (tasks s)(tid \<mapsto> t\<lparr>tphase := Synthesising\<rparr>)\<rparr>))"

text \<open>
  \<open>await generateSpeech(message.text, selectedVoice)\<close> settles: with the base64 text, with
  \<open>undefined\<close> (\<open>None\<close>) when the response holds no audio, or rejected.
  \<open>if (!base64Audio) throw\<close> takes \<open>undefined\<close> and the empty string to the \<open>catch\<close>
  block. Otherwise the call goes on to \<open>decodeBase64\<close> and waits for \<open>decodeAudioData\<close>.
\<close>

definition synthSettled :: "nat \<Rightarrow> string option settled \<Rightarrow> App \<Rightarrow> App" where
  "synthSettled tid r s =
     (case tasks s tid of
        None \<Rightarrow> s
      | Some t \<Rightarrow>
          if tphase t \<noteq> Synthesising then s
          else (case r of
                  Rejected \<Rightarrow> catchBlock tid t s
                | Fulfilled base64Audio \<Rightarrow>
                    if base64Audio = None \<or> base64Audio = Some [] then catchBlock tid t s
                    else s\<lparr>tasks := (tasks s)(tid \<mapsto> t\<lparr>tphase := Decoding\<rparr>)\<rparr>))"

text \<open>
  Modelled from the spec: \<open>utils/audioUtils\<close> (\<open>decodeBase64\<close>, \<open>decodeAudioData\<close>,
  \<open>playAudioBuffer\<close>) is not among the sources. The spec has the decoding either give a
  playable buffer or fail, and the playback begin at once at the given rate and end by
  itself: \<open>playAudioBuffer(buffer, context, rate)\<close> starts a source on the output and its
  promise is fulfilled when the source has ended. A failure of either decoding function is
  the rejected case of \<open>decodeSettled\<close>. \<open>playAudioBuffer\<close> is given the buffer, the
  context and the rate, not \<open>activeSourceRef\<close>, and \<open>handleSpeak\<close> assigns nothing but
  \<open>null\<close> to \<open>activeSourceRef.current\<close>: the source is started and the ref stays as it is.
\<close>

definition decodeSettled :: "nat \<Rightarrow> unit settled \<Rightarrow> App \<Rightarrow> App" where
  "decodeSettled tid r s =
     (case tasks s tid of
        None \<Rightarrow> s
      | Some t \<Rightarrow>
          if tphase t \<noteq> Decoding then s
          else (case r of
                  Rejected \<Rightarrow> catchBlock tid t s
                | Fulfilled u \<Rightarrow>
                    s\<lparr>audible := audible s @ [tid],
                      tasks := (tasks s)(tid \<mapsto> t\<lparr>tphase := Playing\<rparr>)\<rparr>))"

text \<open>
  \<open>await playAudioBuffer(...)\<close> is fulfilled: the source has ended, and the call runs its
  last three statements.
\<close>

definition playbackEnded :: "nat \<Rightarrow> App \<Rightarrow> App" where
  "playbackEnded tid s =
     (case tasks s tid of
        None \<Rightarrow> s
      | Some t \<Rightarrow>
          if tphase t \<noteq> Playing then s
          else s\<lparr>audible := removeAll tid (audible s),
                 isSpeakingId := None,
                 activeSourceRef := None,
                 speakingLoading := False,
                 tasks := (tasks s)(tid := None)\<rparr>)"

subsection \<open>\<open>handleSendMessage\<close>\<close>

text \<open>\<open>Date.now().toString()\<close>: the decimal digits of the time.\<close>

function toString :: "nat \<Rightarrow> string" where
  "toString n = (if n < 10 then [char_of (48 + n)] else toString (n div 10) @ [char_of (48 + n mod 10)])"
  by pat_completeness auto
termination
  by (relation "measure id") auto

text \<open>
  \<open>handleSendMessage(text, attachments)\<close> up to its \<open>await\<close>. \<open>Date.now()\<close> is called
  twice, for the id and for the timestamp: \<open>now\<close> and \<open>now'\<close> are what the two calls
  return.
\<close>

definition handleSendMessage ::
  "string \<Rightarrow> Attachment list \<Rightarrow> nat \<Rightarrow> nat \<Rightarrow> App \<Rightarrow> App" where
  "handleSendMessage txt atts now now' s =
     (let s1 = (if searchQuery s \<noteq> [] then s\<lparr>searchQuery := [], isSearchActive := False\<rparr> else s);
          newMessage = \<lparr>mid = toString now, mrole = user, mtext = txt, mattachments = atts,
                        timestamp = now'\<rparr>
      in s1\<lparr>messages := messages s1 @ [newMessage], isLoading := True\<rparr>)"

text \<open>
  A click on the send button or the Enter key, with \<open>InputArea\<close> mounted in \<open>App\<close>:
  \<open>isLoading\<close> and \<open>quotedMessage\<close> are the props, \<open>onSendMessage\<close> is
  \<open>handleSendMessage\<close> and \<open>onClearQuote\<close> sets \<open>quotedMessage\<close> to \<open>null\<close>.
\<close>

definition send :: "nat \<Rightarrow> nat \<Rightarrow> App \<times> InputArea \<Rightarrow> App \<times> InputArea" where
  "send now now' st =
     (let app = fst st;
          (area, calls) = handleSend (isLoading app) (quotedMessage app) (snd st);
          app1 = (if onClearQuote calls then app\<lparr>quotedMessage := None\<rparr> else app)
      in case onSendMessage calls of
           None \<Rightarrow> (app1, area)
         | Some (txt, atts) \<Rightarrow> (handleSendMessage txt atts now now' app1, area))"

subsection \<open>Runs of the speech pipeline\<close>

datatype speakEvent =
    Speak Message ctx_state
  | ResumeSettled nat "unit settled"
  | SynthSettled nat "string option settled"
  | DecodeSettled nat "unit settled"
  | PlaybackEnded nat
  | ToggleAutoSpeak

fun speakStep :: "App \<Rightarrow> speakEvent \<Rightarrow> App" where
  "speakStep s (Speak message fresh) = handleSpeak message fresh s"
| "speakStep s (ResumeSettled tid r) = resumeSettled tid r s"
| "speakStep s (SynthSettled tid r) = synthSettled tid r s"
| "speakStep s (DecodeSettled tid r) = decodeSettled tid r s"
| "speakStep s (PlaybackEnded tid) = playbackEnded tid s"
| "speakStep s ToggleAutoSpeak = s\<lparr>autoSpeak := \<not> autoSpeak s\<rparr>"

definition runSpeech :: "speakEvent list \<Rightarrow> App" where
  "runSpeech evs = foldl speakStep initialApp evs"

subsection \<open>Sample messages\<close>

definition m1 :: Message where
  "m1 = \<lparr>mid = ''m1'', mrole = model, mtext = ''Hello'', mattachments = [], timestamp = 1\<rparr>"

definition m2 :: Message where
  "m2 = \<lparr>mid = ''m2'', mrole = model, mtext = ''Good bye'', mattachments = [], timestamp = 2\<rparr>"

text \<open>
  The state after \<open>handleSpeak(m1)\<close> on a running context, the state after its synthesis
  has given a payload, and the call that is suspended.
\<close>

definition speaking :: App where
  "speaking = runSpeech [Speak m1 running]"

definition decoding :: App where
  "decoding = synthSettled 0 (Fulfilled (Some ''UklGRg=='')) speaking"

definition speakingTask :: SpeakTask where
  "speakingTask =
     \<lparr>tmessage = m1, tvoice = ''Kore'', tspeed = Num 1, tautoSpeak = False,
      tphase = Synthesising\<rparr>"

subsection \<open>Sample files\<close>

definition examplePng :: File where
  "examplePng = \<lparr>ftype = ''image/png'', fname = ''a.png'', fsize = 3, fbytes = [1, 2, 3]\<rparr>"

definition exampleJpeg :: File where
  "exampleJpeg = \<lparr>ftype = ''image/jpeg'', fname = ''b.jpg'', fsize = 2, fbytes = [255, 216]\<rparr>"

definition exampleText :: File where
  "exampleText = \<lparr>ftype = ''text/plain'', fname = ''notes.txt'', fsize = 1, fbytes = [65]\<rparr>"

definition exampleComma :: File where
  "exampleComma = \<lparr>ftype = ''image/x,y'', fname = ''c.img'', fsize = 3, fbytes = [1, 2, 3]\<rparr>"

definition exampleClip :: ClipboardItem where
  "exampleClip = \<lparr>itype = ''text/plain'', asFile = None\<rparr>"

definition typing :: InputArea where
  "typing = initialInputArea\<lparr>input := ''hi ''\<rparr>"

section \<open>Properties of the attachment ingestion\<close>

subsection \<open>What \<open>processFiles\<close> registers\<close>

lemma startReader_fields:
  "activeReaders (startReader s f) = activeReaders s @ [nextReader s]"
  "nextReader (startReader s f) = Suc (nextReader s)"
  "loading (startReader s f) = (loading s)(nextReader s \<mapsto> f)"
  "attachments (startReader s f) = attachments s"
  "isProcessing (startReader s f) = isProcessing s"
  "alerts (startReader s f) = alerts s"
  "console (startReader s f) = console s"
  "input (startReader s f) = input s"
  "isDragging (startReader s f) = isDragging s"
  by (simp_all add: startReader_def Let_def)

lemma foldl_startReader_nextReader:
  "nextReader (foldl startReader s fs) = nextReader s + length fs"
  by (induction fs arbitrary: s) (simp_all add: startReader_fields)

lemma foldl_startReader_activeReaders:
  "activeReaders (foldl startReader s fs) =
     activeReaders s @ [nextReader s ..< nextReader s + length fs]"
proof (induction fs arbitrary: s)
  case Nil
  then show ?case by simp
next
  case (Cons f fs)
  have "[nextReader s ..< nextReader s + length (f # fs)]
          = nextReader s # [Suc (nextReader s) ..< Suc (nextReader s) + length fs]"
    by (subst upt_rec) simp
  then show ?case
    by (simp add: Cons.IH startReader_fields)
qed

lemma foldl_startReader_loading:
  "loading (foldl startReader s fs) r =
     (if nextReader s \<le> r \<and> r < nextReader s + length fs
      then Some (fs ! (r - nextReader s))
      else loading s r)"
proof (induction fs arbitrary: s r)
  case Nil
  then show ?case by auto
next
  case (Cons f fs)
  show ?case
    by (auto simp add: Cons.IH startReader_fields nth_Cons' Suc_diff_Suc)
qed

lemma foldl_startReader_frame:
  "attachments (foldl startReader s fs) = attachments s"
  "isProcessing (foldl startReader s fs) = isProcessing s"
  "alerts (foldl startReader s fs) = alerts s"
  "console (foldl startReader s fs) = console s"
  "input (foldl startReader s fs) = input s"
  "isDragging (foldl startReader s fs) = isDragging s"
  by (induction fs arbitrary: s) (simp_all add: startReader_fields)

text \<open>
  C3. Let \<open>K\<close> be the number of files of the batch whose declared type begins with
  \<open>image/\<close>. If \<open>K \<ge> 1\<close>, \<open>processFiles\<close> appends exactly \<open>K\<close> new readers to
  \<open>activeReaders\<close>, the \<open>i\<close>-th of them reading the \<open>i\<close>-th image file, whatever other files
  the batch holds; no alert is raised and the attachment list is as before. If \<open>K = 0\<close> and
  the batch is not empty, the only effect is the alert: no reader is created.
\<close>

theorem processFiles_registers:
  "(1 \<le> length (validFiles files) \<longrightarrow>
      activeReaders (processFiles files s) =
        activeReaders s @ [nextReader s ..< nextReader s + length (validFiles files)]
      \<and> length (activeReaders (processFiles files s)) =
          length (activeReaders s) + length (validFiles files)
      \<and> map (loading (processFiles files s))
            [nextReader s ..< nextReader s + length (validFiles files)]
          = map Some (validFiles files)
      \<and> alerts (processFiles files s) = alerts s
      \<and> attachments (processFiles files s) = attachments s
      \<and> isProcessing (processFiles files s))
   \<and> (length (validFiles files) = 0 \<and> 0 < length files \<longrightarrow>
      processFiles files s = s\<lparr>alerts := alerts s @ [''Only image files are supported.'']\<rparr>)"
proof (intro conjI impI)
  assume k: "1 \<le> length (validFiles files)"
  then have "validFiles files \<noteq> []"
    by auto
  then have pf: "processFiles files s =
                   foldl startReader (s\<lparr>isProcessing := True\<rparr>) (validFiles files)"
    by (simp add: processFiles_def)
  show "activeReaders (processFiles files s) =
        activeReaders s @ [nextReader s ..< nextReader s + length (validFiles files)]"
    by (simp add: pf foldl_startReader_activeReaders)
  then show "length (activeReaders (processFiles files s)) =
          length (activeReaders s) + length (validFiles files)"
    by simp
  show "map (loading (processFiles files s))
          [nextReader s ..< nextReader s + length (validFiles files)]
        = map Some (validFiles files)"
    by (rule nth_equalityI) (simp_all add: pf foldl_startReader_loading)
  show "alerts (processFiles files s) = alerts s"
    by (simp add: pf foldl_startReader_frame)
  show "attachments (processFiles files s) = attachments s"
    by (simp add: pf foldl_startReader_frame)
  show "isProcessing (processFiles files s)"
    by (simp add: pf foldl_startReader_frame)
next
  assume "length (validFiles files) = 0 \<and> 0 < length files"
  then show "processFiles files s =
               s\<lparr>alerts := alerts s @ [''Only image files are supported.'']\<rparr>"
    by (simp add: processFiles_def)
qed

lemma validFiles_samples:
  "validFiles [exampleText, examplePng, exampleJpeg] = [examplePng, exampleJpeg]"
  "validFiles [exampleText] = []"
  by (simp_all add: validFiles_def startsWith_def exampleText_def examplePng_def exampleJpeg_def)

theorem processFiles_registers_witness:
  "1 \<le> length (validFiles [exampleText, examplePng, exampleJpeg])
   \<and> activeReaders (processFiles [exampleText, examplePng, exampleJpeg] initialInputArea) = [0, 1]
   \<and> map (loading (processFiles [exampleText, examplePng, exampleJpeg] initialInputArea)) [0, 1]
       = [Some examplePng, Some exampleJpeg]
   \<and> (length (validFiles [exampleText]) = 0 \<and> 0 < length [exampleText])
   \<and> alerts (processFiles [exampleText] initialInputArea) = [''Only image files are supported.'']
   \<and> activeReaders (processFiles [exampleText] initialInputArea) = []"
  using processFiles_registers [of "[exampleText, examplePng, exampleJpeg]" initialInputArea]
    processFiles_registers [of "[exampleText]" initialInputArea]
  by (simp add: validFiles_samples initialInputArea_def upt_rec)

subsection \<open>An empty batch\<close>

text \<open>
  C4. \<open>processFiles\<close> is a function of the component with three callers, the handlers of
  the file picker, of the paste and of the drop, and these are the ways a sequence of
  files is submitted. Each of them returns before it calls \<open>processFiles\<close> when it has no
  file: the picker and the drop on a missing or empty file list, the paste on a clipboard
  that gives no image file. So submitting an empty sequence changes nothing: no alert is
  raised, no reader is created, the attachment list and the flag \<open>isProcessing\<close> are as
  before (the drop ends the dragging, as every drop does).
\<close>

theorem empty_submission_is_noop:
  "handleFileChange (Some []) s = s
   \<and> handleFileChange None s = s
   \<and> (pastedFiles items = [] \<longrightarrow> handlePaste items s = s)
   \<and> onDrop (Some []) s = s\<lparr>isDragging := False\<rparr>
   \<and> onDrop None s = s\<lparr>isDragging := False\<rparr>
   \<and> alerts (onDrop (Some []) s) = alerts s
   \<and> activeReaders (onDrop (Some []) s) = activeReaders s
   \<and> loading (onDrop (Some []) s) = loading s
   \<and> attachments (onDrop (Some []) s) = attachments s
   \<and> isProcessing (onDrop (Some []) s) = isProcessing s"
  by (simp add: handleFileChange_def onDrop_def handlePaste_def)

theorem empty_submission_is_noop_witness:
  "pastedFiles [exampleClip] = []
   \<and> handlePaste [exampleClip] initialInputArea = initialInputArea
   \<and> handleFileChange (Some []) initialInputArea = initialInputArea
   \<and> \<not> isProcessing (handleFileChange (Some []) initialInputArea)
   \<and> \<not> isProcessing (handlePaste [exampleClip] initialInputArea)
   \<and> \<not> isProcessing (onDrop (Some []) initialInputArea)
   \<and> alerts (onDrop (Some []) initialInputArea) = []
   \<and> activeReaders (onDrop (Some []) initialInputArea) = []"
proof -
  have p: "pastedFiles [exampleClip] = []"
    by (simp add: pastedFiles_def exampleClip_def contains_def upt_rec)
  have i: "\<not> isProcessing initialInputArea" "alerts initialInputArea = []"
    "activeReaders initialInputArea = []"
    by (simp_all add: initialInputArea_def)
  show ?thesis
    using empty_submission_is_noop [of initialInputArea "[exampleClip]"] p i
    by simp
qed

text \<open>
  Called on an empty list, \<open>processFiles\<close> itself would raise no alert and create no
  reader, but it would set the flag. No caller does that, and in no run of the component
  is the flag set with no reader tracked (\<open>flag_iff_tracked\<close> below).
\<close>

lemma processFiles_empty_unguarded:
  "processFiles [] s = s\<lparr>isProcessing := True\<rparr>"
  by (simp add: processFiles_def validFiles_def)

subsection \<open>The flag after a resolution\<close>

lemma cleanupReader_fields:
  "activeReaders (cleanupReader r s) = remove1 r (activeReaders s)"
  "isProcessing (cleanupReader r s) =
     (if remove1 r (activeReaders s) = [] then False else isProcessing s)"
  "attachments (cleanupReader r s) = attachments s"
  "loading (cleanupReader r s) = loading s"
  "alerts (cleanupReader r s) = alerts s"
  "input (cleanupReader r s) = input s"
  by (simp_all add: cleanupReader_def Let_def)

lemma flagInv_cleanupReader: "flagInv s \<Longrightarrow> flagInv (cleanupReader r s)"
  by (auto simp add: flagInv_def cleanupReader_fields)

lemma flagInv_upd:
  "flagInv (s\<lparr>attachments := a\<rparr>) = flagInv s"
  "flagInv (s\<lparr>loading := l\<rparr>) = flagInv s"
  "flagInv (s\<lparr>console := c\<rparr>) = flagInv s"
  "flagInv (s\<lparr>alerts := al\<rparr>) = flagInv s"
  "flagInv (s\<lparr>input := i\<rparr>) = flagInv s"
  "flagInv (s\<lparr>isDragging := d\<rparr>) = flagInv s"
  by (simp_all add: flagInv_def)

lemma flagInv_resolve: "flagInv s \<Longrightarrow> flagInv (resolve r out s)"
  by (cases out; cases "loading s r")
    (simp_all add: resolve_def fireLoad_def fireError_def abort_def onload_def onerror_def
      onabort_def flagInv_cleanupReader flagInv_upd)

lemma flagInv_processFiles:
  assumes "files \<noteq> []" and "flagInv s"
  shows "flagInv (processFiles files s)"
proof (cases "validFiles files = []")
  case True
  then show ?thesis
    using assms by (simp add: processFiles_def flagInv_upd)
next
  case False
  then show ?thesis
    by (simp add: processFiles_def flagInv_def foldl_startReader_frame
        foldl_startReader_activeReaders)
qed

lemma flagInv_cancelUpload: "flagInv (cancelUpload s)"
  by (simp add: cancelUpload_def flagInv_def)

lemma flagInv_step: "flagInv s \<Longrightarrow> flagInv (step s e)"
  by (cases e)
    (auto simp add: handleFileChange_def handlePaste_def onDrop_def Let_def
      flagInv_processFiles flagInv_resolve flagInv_cancelUpload flagInv_upd
      removeAttachment_def clearAttachments_def handleInput_def handleSend_def
      split: option.splits)

lemma flagInv_foldl: "flagInv s \<Longrightarrow> flagInv (foldl step s evs)"
  by (induction evs arbitrary: s) (simp_all add: flagInv_step)

text \<open>
  In every run the flag says exactly whether \<open>activeReaders\<close> is non-empty, and a
  resolution takes the reader out of \<open>activeReaders\<close>: with respect to the readers it
  tracks, the component recomputes the flag as each conversion ends.
\<close>

lemma flag_iff_tracked: "isProcessing (run evs) = (activeReaders (run evs) \<noteq> [])"
proof -
  have "flagInv initialInputArea"
    by (simp add: flagInv_def initialInputArea_def)
  then have "flagInv (run evs)"
    unfolding run_def by (rule flagInv_foldl)
  then show ?thesis
    by (simp add: flagInv_def)
qed

lemma resolve_untracks:
  "loading s reader = Some f \<Longrightarrow>
   activeReaders (resolve reader out s) = remove1 reader (activeReaders s)
   \<and> loading (resolve reader out s) reader = None"
  by (cases out)
    (simp_all add: resolve_def fireLoad_def fireError_def abort_def onload_def onerror_def
      onabort_def cleanupReader_fields)

text \<open>
  C5 at three files. Two images are submitted and the upload is cancelled:
  \<open>cancelUpload\<close> passes over reader 1 (see the next subsection), which goes on reading
  although \<open>activeReaders\<close> no longer holds it. A third image is submitted, read by
  reader 2, and the flag is set again. When the read of reader 2 ends, \<open>cleanupReader\<close>
  finds \<open>activeReaders\<close> empty and clears the flag, while the conversion of reader 1 is
  still pending: the flag is false with a conversion in flight, and the resolution that
  cleared it was not the last one, for reader 1 resolves later and appends its attachment.
\<close>

theorem flag_cleared_before_last_resolution:
  "isProcessing (run [FileChange (Some [examplePng, exampleJpeg]), CancelUpload,
                      FileChange (Some [examplePng])])
   \<and> activeReaders (run [FileChange (Some [examplePng, exampleJpeg]), CancelUpload,
                         FileChange (Some [examplePng])]) = [2]
   \<and> loading (run [FileChange (Some [examplePng, exampleJpeg]), CancelUpload,
                   FileChange (Some [examplePng])]) 1 = Some exampleJpeg
   \<and> loading (run [FileChange (Some [examplePng, exampleJpeg]), CancelUpload,
                   FileChange (Some [examplePng])]) 2 = Some examplePng
   \<and> \<not> isProcessing
         (resolve 2 (Loaded ''data:image/png;base64,AQID'')
           (run [FileChange (Some [examplePng, exampleJpeg]), CancelUpload,
                 FileChange (Some [examplePng])]))
   \<and> loading
         (resolve 2 (Loaded ''data:image/png;base64,AQID'')
           (run [FileChange (Some [examplePng, exampleJpeg]), CancelUpload,
                 FileChange (Some [examplePng])])) 1 = Some exampleJpeg
   \<and> map name
         (attachments
           (resolve 1 (Loaded ''data:image/jpeg;base64,/9g='')
             (resolve 2 (Loaded ''data:image/png;base64,AQID'')
               (run [FileChange (Some [examplePng, exampleJpeg]), CancelUpload,
                     FileChange (Some [examplePng])]))))
       = [''a.png'', ''b.jpg'']"
  by code_simp

subsection \<open>Cancelling\<close>

text \<open>
  C6 at two pending conversions. \<open>cancelUpload\<close> walks \<open>activeReaders\<close> with \<open>forEach\<close>
  while each \<open>abort()\<close> runs \<open>onabort\<close>, whose \<open>cleanupReader\<close> splices the aborted reader
  out of the same array: after reader 0 is removed, index 1 is past the end, and reader 1
  is never aborted. The array and the flag are cleared all the same. Reader 1 goes on
  reading, and when its \<open>load\<close> fires, \<open>onload\<close> appends its attachment to the list, also
  after \<open>clearAttachments\<close> has emptied it.
\<close>

theorem cancelUpload_skips_second_reader:
  "activeReaders (cancelUpload (processFiles [examplePng, exampleJpeg] initialInputArea)) = []
   \<and> \<not> isProcessing (cancelUpload (processFiles [examplePng, exampleJpeg] initialInputArea))
   \<and> loading (cancelUpload (processFiles [examplePng, exampleJpeg] initialInputArea)) 0 = None
   \<and> loading (cancelUpload (processFiles [examplePng, exampleJpeg] initialInputArea)) 1
       = Some exampleJpeg
   \<and> attachments (fireLoad 1 ''data:image/jpeg;base64,/9g=''
        (cancelUpload (processFiles [examplePng, exampleJpeg] initialInputArea)))
       = [\<lparr>mimeType = ''image/jpeg'', data = Some ''/9g='',
           url = ''data:image/jpeg;base64,/9g='', name = ''b.jpg'', size_bytes = 2\<rparr>]
   \<and> attachments (fireLoad 1 ''data:image/jpeg;base64,/9g=''
        (clearAttachments (processFiles [examplePng, exampleJpeg] initialInputArea)))
       = [\<lparr>mimeType = ''image/jpeg'', data = Some ''/9g='',
           url = ''data:image/jpeg;base64,/9g='', name = ''b.jpg'', size_bytes = 2\<rparr>]"
  by code_simp

text \<open>With three readers pending it is again the second that is passed over.\<close>

lemma cancelUpload_three_readers:
  "map (loading (cancelUpload
                  (processFiles [examplePng, exampleJpeg, examplePng] initialInputArea)))
       [0, 1, 2]
     = [None, Some exampleJpeg, None]"
  by code_simp

text \<open>
  What does hold of \<open>cancelUpload\<close>: the array and the flag are cleared, the call changes
  nothing but the flag when no reader is pending, and a single pending reader is aborted.
\<close>

lemma cancelUpload_clears:
  "activeReaders (cancelUpload s) = []" "\<not> isProcessing (cancelUpload s)"
  by (simp_all add: cancelUpload_def)

lemma cancelUpload_idle:
  "activeReaders s = [] \<Longrightarrow> cancelUpload s = s\<lparr>isProcessing := False\<rparr>"
  by (simp add: cancelUpload_def)

lemma cancelUpload_single:
  "activeReaders s = [r] \<Longrightarrow> loading (cancelUpload s) r = None"
  by (cases "loading s r")
    (simp_all add: cancelUpload_def index_def abort_def onabort_def cleanupReader_def)

subsection \<open>Sending\<close>

text \<open>
  C10. \<open>handleSend\<close> returns at once, calling nothing and changing nothing, when the
  trimmed input is empty and there is no attachment, or a chat request is loading, or
  conversions are in flight: the message list of \<open>App\<close>, the input and the attachment list
  are as before. Only otherwise does it call \<open>onSendMessage\<close> with the text and the
  attachments, which appends the user's message to the message list, and clear the input
  and the attachment list.
\<close>

theorem handleSend_noop_or_emit:
  "((trim (input s) = [] \<and> attachments s = []) \<or> isLoading app \<or> isProcessing s \<longrightarrow>
      handleSend (isLoading app) (quotedMessage app) s
        = (s, \<lparr>onSendMessage = None, onClearQuote = False\<rparr>)
      \<and> send now now' (app, s) = (app, s))
   \<and> (\<not> ((trim (input s) = [] \<and> attachments s = []) \<or> isLoading app \<or> isProcessing s) \<longrightarrow>
      onSendMessage (snd (handleSend (isLoading app) (quotedMessage app) s))
        = Some (finalText (quotedMessage app) (input s), attachments s)
      \<and> messages (fst (send now now' (app, s)))
          = messages app @ [\<lparr>mid = toString now, mrole = user,
                              mtext = finalText (quotedMessage app) (input s),
                              mattachments = attachments s, timestamp = now'\<rparr>]
      \<and> snd (send now now' (app, s)) = s\<lparr>input := [], attachments := []\<rparr>)"
  by (simp add: handleSend_def send_def handleSendMessage_def Let_def)

theorem handleSend_noop_or_emit_witness:
  "((trim (input initialInputArea) = [] \<and> attachments initialInputArea = [])
      \<or> isLoading initialApp \<or> isProcessing initialInputArea)
   \<and> send 7 8 (initialApp, initialInputArea) = (initialApp, initialInputArea)
   \<and> \<not> ((trim (input typing) = [] \<and> attachments typing = [])
          \<or> isLoading initialApp \<or> isProcessing typing)
   \<and> messages (fst (send 7 8 (initialApp, typing)))
       = [\<lparr>mid = ''7'', mrole = user, mtext = ''hi '', mattachments = [], timestamp = 8\<rparr>]
   \<and> input (snd (send 7 8 (initialApp, typing))) = []"
proof -
  have t7: "toString 7 = ''7''"
    by code_simp
  show ?thesis
    using handleSend_noop_or_emit [of initialInputArea initialApp 7 8]
      handleSend_noop_or_emit [of typing initialApp 7 8]
    by (simp add: typing_def initialInputArea_def initialApp_def trim_def isWhiteSpace_def
        finalText_def t7 del: toString.simps)
qed

subsection \<open>The encoded data\<close>

lemma sextet_alphabet:
  "map sextet [0..<64] = ''ABCDEFGHIJKLMNOPQRSTUVWXYZabcdefghijklmnopqrstuvwxyz0123456789+/''"
  by code_simp

lemma unsextet_sextet: "n < 64 \<Longrightarrow> unsextet (sextet n) = Some n"
  by (auto simp add: sextet_def unsextet_def Let_def)

lemma unsextet_pad: "unsextet CHR ''='' = None"
  by (simp add: unsextet_def)

lemma sextet_not_pad: "n < 64 \<Longrightarrow> sextet n \<noteq> CHR ''=''"
  using unsextet_sextet [of n] unsextet_pad by auto

lemma of_char_sextet: "(of_char (sextet n) :: nat) \<noteq> 44"
  by (auto simp add: sextet_def)

lemma sextet_not_comma: "sextet n \<noteq> CHR '',''"
proof
  assume "sextet n = CHR '',''"
  then have "(of_char (sextet n) :: nat) = of_char CHR '',''"
    by simp
  then show False
    using of_char_sextet [of n] by simp
qed

lemma base64_no_comma: "CHR '','' \<notin> set (base64 bs)"
  by (induction bs rule: base64.induct) (simp_all add: sextet_not_comma [symmetric])

lemma byte_parts:
  fixes a b c :: byte
  shows "of_nat (unat a div 4 * 4 + (unat a mod 4 * 16 + unat b div 16) div 16) = a"
    and "of_nat ((unat a mod 4 * 16 + unat b div 16) mod 16 * 16
                  + (unat b mod 16 * 4 + unat c div 64) div 4) = b"
    and "of_nat ((unat b mod 16 * 4 + unat c div 64) mod 4 * 64 + unat c mod 64) = c"
    and "of_nat (unat a div 4 * 4 + (unat a mod 4 * 16) div 16) = a"
    and "of_nat ((unat a mod 4 * 16 + unat b div 16) mod 16 * 16 + (unat b mod 16 * 4) div 4) = b"
proof -
  have la: "unat a < 256" and lb: "unat b < 256" and lc: "unat c < 256"
    using unsigned_less [of a, where ?'a = nat] unsigned_less [of b, where ?'a = nat]
      unsigned_less [of c, where ?'a = nat] by simp_all
  have b16: "unat b div 16 < 16" and c64: "unat c div 64 < 4"
    using lb lc by simp_all
  have inv: "\<And>w :: byte. of_nat (unat w) = w"
    by simp
  have 1: "unat a div 4 * 4 + (unat a mod 4 * 16 + unat b div 16) div 16 = unat a"
    using b16 by simp
  have 2: "(unat a mod 4 * 16 + unat b div 16) mod 16 * 16
             + (unat b mod 16 * 4 + unat c div 64) div 4 = unat b"
    using b16 c64 by simp
  have 3: "(unat b mod 16 * 4 + unat c div 64) mod 4 * 64 + unat c mod 64 = unat c"
    using c64 by simp
  have 4: "unat a div 4 * 4 + (unat a mod 4 * 16) div 16 = unat a"
    by simp
  have 5: "(unat a mod 4 * 16 + unat b div 16) mod 16 * 16 + (unat b mod 16 * 4) div 4 = unat b"
    using b16 by simp
  show "of_nat (unat a div 4 * 4 + (unat a mod 4 * 16 + unat b div 16) div 16) = a"
    by (simp only: 1 inv)
  show "of_nat ((unat a mod 4 * 16 + unat b div 16) mod 16 * 16
                  + (unat b mod 16 * 4 + unat c div 64) div 4) = b"
    by (simp only: 2 inv)
  show "of_nat ((unat b mod 16 * 4 + unat c div 64) mod 4 * 64 + unat c mod 64) = c"
    by (simp only: 3 inv)
  show "of_nat (unat a div 4 * 4 + (unat a mod 4 * 16) div 16) = a"
    by (simp only: 4 inv)
  show "of_nat ((unat a mod 4 * 16 + unat b div 16) mod 16 * 16 + (unat b mod 16 * 4) div 4) = b"
    by (simp only: 5 inv)
qed

lemma sextet_bounds:
  fixes a b c :: byte
  shows "unat a div 4 < 64" "unat a mod 4 * 16 + unat b div 16 < 64"
    "unat b mod 16 * 4 + unat c div 64 < 64" "unat c mod 64 < 64"
    "unat a mod 4 * 16 < 64" "unat b mod 16 * 4 < 64"
proof -
  have la: "unat a < 256" and lb: "unat b < 256" and lc: "unat c < 256"
    using unsigned_less [of a, where ?'a = nat] unsigned_less [of b, where ?'a = nat]
      unsigned_less [of c, where ?'a = nat] by simp_all
  show "unat a div 4 < 64" using la by simp
  have "unat a mod 4 < 4" "unat b div 16 < 16" using lb by simp_all
  then show "unat a mod 4 * 16 + unat b div 16 < 64" by linarith
  have "unat b mod 16 < 16" "unat c div 64 < 4" using lc by simp_all
  then show "unat b mod 16 * 4 + unat c div 64 < 64" by linarith
  show "unat c mod 64 < 64" by simp
  have "unat a mod 4 < 4" by simp
  then show "unat a mod 4 * 16 < 64" by linarith
  have "unat b mod 16 < 16" by simp
  then show "unat b mod 16 * 4 < 64" by linarith
qed

lemma decode64_quad:
  "x < 64 \<Longrightarrow> y < 64 \<Longrightarrow> z < 64 \<Longrightarrow> w < 64 \<Longrightarrow>
   decode64 (sextet x # sextet y # sextet z # sextet w # rest) =
     (case decode64 rest of
        None \<Rightarrow> None
      | Some bs \<Rightarrow>
          Some (of_nat (x * 4 + y div 16) # of_nat (y mod 16 * 16 + z div 4)
                # of_nat (z mod 4 * 64 + w) # bs))"
  by (simp add: unsextet_sextet sextet_not_pad)

lemma decode64_pad1:
  "x < 64 \<Longrightarrow> y < 64 \<Longrightarrow> z < 64 \<Longrightarrow>
   decode64 [sextet x, sextet y, sextet z, CHR ''=''] =
     Some [of_nat (x * 4 + y div 16), of_nat (y mod 16 * 16 + z div 4)]"
  by (simp add: unsextet_sextet sextet_not_pad)

lemma decode64_pad2:
  "x < 64 \<Longrightarrow> y < 64 \<Longrightarrow>
   decode64 [sextet x, sextet y, CHR ''='', CHR ''=''] = Some [of_nat (x * 4 + y div 16)]"
  by (simp add: unsextet_sextet)

lemma decode64_base64: "decode64 (base64 bs) = Some bs"
proof (induction bs rule: base64.induct)
  case (1 a b c rest)
  show ?case
    by (simp only: base64.simps append_Cons append_Nil
        decode64_quad [OF sextet_bounds(1) sextet_bounds(2) sextet_bounds(3) sextet_bounds(4)]
        "1.IH" option.case byte_parts)
next
  case (2 a b)
  show ?case
    by (simp only: base64.simps
        decode64_pad1 [OF sextet_bounds(1) sextet_bounds(2) sextet_bounds(6)] byte_parts)
next
  case (3 a)
  show ?case
    by (simp only: base64.simps decode64_pad2 [OF sextet_bounds(1) sextet_bounds(5)] byte_parts)
next
  case 4
  show ?case by simp
qed


lemma split_comma_nonempty: "split_comma s \<noteq> []"
  by (induction s) (auto split: list.splits)

lemma split_comma_no_comma: "CHR '','' \<notin> set s \<Longrightarrow> split_comma s = [s]"
  by (induction s) auto

lemma split_comma_prefix:
  "CHR '','' \<notin> set pre \<Longrightarrow> split_comma (pre @ CHR '','' # post) = pre # split_comma post"
  by (induction pre) auto

lemma data_of_dataURL:
  assumes "CHR '','' \<notin> set mediatype"
  shows "data (newAttachment file (dataURL mediatype bytes)) = Some (base64 bytes)"
proof -
  have pre: "CHR '','' \<notin> set (''data:'' @ mediatype @ '';base64'')"
    using assms by simp
  have "dataURL mediatype bytes = (''data:'' @ mediatype @ '';base64'') @ CHR '','' # base64 bytes"
    by (simp add: dataURL_def)
  then have "split_comma (dataURL mediatype bytes)
               = (''data:'' @ mediatype @ '';base64'') # split_comma (base64 bytes)"
    using split_comma_prefix [OF pre] by simp
  also have "split_comma (base64 bytes) = [base64 bytes]"
    by (rule split_comma_no_comma) (rule base64_no_comma)
  finally show ?thesis
    by (simp add: newAttachment_def index_def)
qed

lemma mediaType_no_comma: "CHR '','' \<notin> set (mediaType file)"
  by (simp add: mediaType_def)

lemma data_of_readAsDataURL:
  "data (newAttachment file (readAsDataURL file)) = Some (base64 (fbytes file))"
  unfolding readAsDataURL_def by (rule data_of_dataURL) (rule mediaType_no_comma)

text \<open>
  C7. For every file whose read succeeds, the attachment that \<open>onload\<close> appends to the
  list carries the declared type of the file and, as its data, exactly the base64 text of
  the file's bytes: \<open>result.split(',')[1]\<close> is what follows the first comma of the data
  URL, the prefix stripped. Decoding that text gives the bytes of the file back. The same
  holds of the data URL with any media type that holds no comma, whichever the browser
  writes.
\<close>

theorem attachment_data_round_trip:
  assumes "loading s reader = Some file"
  shows "attachments (fireLoad reader (readAsDataURL file) s)
           = attachments s @ [newAttachment file (readAsDataURL file)]
       \<and> mimeType (newAttachment file (readAsDataURL file)) = ftype file
       \<and> data (newAttachment file (readAsDataURL file)) = Some (base64 (fbytes file))
       \<and> Option.bind (data (newAttachment file (readAsDataURL file))) decode64
           = Some (fbytes file)
       \<and> (CHR '','' \<notin> set mediatype \<longrightarrow>
            attachments (fireLoad reader (dataURL mediatype (fbytes file)) s)
              = attachments s @ [newAttachment file (dataURL mediatype (fbytes file))]
            \<and> data (newAttachment file (dataURL mediatype (fbytes file)))
                = Some (base64 (fbytes file)))"
  using assms
  by (simp add: data_of_readAsDataURL data_of_dataURL decode64_base64 fireLoad_def onload_def
      cleanupReader_fields)
    (simp add: newAttachment_def)

theorem attachment_data_round_trip_witness:
  "loading (processFiles [examplePng] initialInputArea) 0 = Some examplePng
   \<and> readAsDataURL examplePng = ''data:image/png;base64,AQID''
   \<and> map data (attachments (fireLoad 0 (readAsDataURL examplePng)
                             (processFiles [examplePng] initialInputArea)))
       = [Some ''AQID'']
   \<and> decode64 ''AQID'' = Some [1, 2, 3]
   \<and> CHR '','' \<notin> set ''image/png''
   \<and> data (newAttachment examplePng (dataURL ''image/png'' (fbytes examplePng)))
       = Some ''AQID''
   \<and> loading (processFiles [exampleComma] initialInputArea) 0 = Some exampleComma
   \<and> map data (attachments (fireLoad 0 (readAsDataURL exampleComma)
                             (processFiles [exampleComma] initialInputArea)))
       = [Some ''AQID'']"
proof -
  have b: "loading (processFiles [examplePng] initialInputArea) 0 = Some examplePng"
    by code_simp
  have b': "loading (processFiles [exampleComma] initialInputArea) 0 = Some exampleComma"
    by code_simp
  have c: "attachments (processFiles [examplePng] initialInputArea) = []"
    "attachments (processFiles [exampleComma] initialInputArea) = []"
    by code_simp+
  have d: "base64 (fbytes examplePng) = ''AQID''" "base64 (fbytes exampleComma) = ''AQID''"
    by code_simp+
  have e: "decode64 ''AQID'' = Some [1, 2, 3]"
    by code_simp
  have u: "readAsDataURL examplePng = ''data:image/png;base64,AQID''"
    by code_simp
  show ?thesis
    using attachment_data_round_trip [OF b, of "''image/png''"]
      attachment_data_round_trip [OF b', of "''image/png''"] b b' c d e u
    by (simp del: decode64.simps)
qed

section \<open>Properties of the speech playback\<close>

subsection \<open>What \<open>stopAudio\<close> can stop\<close>

lemma speakStep_ref:
  "activeSourceRef s = None \<Longrightarrow> activeSourceRef (speakStep s e) = None"
  by (cases e)
    (auto simp add: handleSpeak_def stopAudio_def suspend_def Let_def resumeSettled_def
      synthSettled_def decodeSettled_def playbackEnded_def catchBlock_def
      split: option.splits settled.splits)

lemma foldl_speakStep_ref:
  "activeSourceRef s = None \<Longrightarrow> activeSourceRef (foldl speakStep s evs) = None"
  by (induction evs arbitrary: s) (simp_all add: speakStep_ref)

text \<open>
  No statement assigns a source to \<open>activeSourceRef.current\<close>, so it is \<open>null\<close> in every
  state, and the \<open>stopAudio\<close> of a \<open>handleSpeak\<close> never takes a source off the output.
\<close>

lemma activeSourceRef_never_set: "activeSourceRef (runSpeech evs) = None"
  unfolding runSpeech_def by (rule foldl_speakStep_ref) (simp add: initialApp_def)

lemma handleSpeak_halts_nothing:
  "audible (handleSpeak message fresh (runSpeech evs)) = audible (runSpeech evs)"
  using activeSourceRef_never_set [of evs]
  by (simp add: handleSpeak_def stopAudio_def suspend_def Let_def split: option.splits)

lemma handleSpeak_same_id:
  "isSpeakingId s = Some (mid message) \<Longrightarrow>
   isSpeakingId (handleSpeak message fresh s) = None
   \<and> tasks (handleSpeak message fresh s) = tasks s"
  by (simp add: handleSpeak_def stopAudio_def split: option.splits)

subsection \<open>Single flight\<close>

text \<open>
  C1 at two messages. \<open>handleSpeak(m1)\<close> is followed by \<open>handleSpeak(m2)\<close> while call 0
  still waits for its synthesis. Call 0 is superseded, yet nothing after its \<open>await\<close>
  asks whether it still is the current session: when its synthesis and decoding settle,
  its audio is started although \<open>isSpeakingId\<close> names \<open>m2\<close>, and when call 1 settles as
  well, two sources are on the output at once. The same holds when \<open>m1\<close> is already
  playing as \<open>handleSpeak(m2)\<close> is called: \<open>stopAudio\<close> finds \<open>activeSourceRef\<close> empty
  and halts nothing.
\<close>

theorem superseded_session_is_played:
  "isSpeakingId (runSpeech [Speak m1 running, Speak m2 running,
       SynthSettled 0 (Fulfilled (Some ''UklGRg=='')), DecodeSettled 0 (Fulfilled ())])
     = Some ''m2''
   \<and> audible (runSpeech [Speak m1 running, Speak m2 running,
       SynthSettled 0 (Fulfilled (Some ''UklGRg=='')), DecodeSettled 0 (Fulfilled ())])
     = [0]
   \<and> audible (runSpeech [Speak m1 running, Speak m2 running,
       SynthSettled 0 (Fulfilled (Some ''UklGRg=='')), DecodeSettled 0 (Fulfilled ()),
       SynthSettled 1 (Fulfilled (Some ''UklGRg=='')), DecodeSettled 1 (Fulfilled ())])
     = [0, 1]
   \<and> audible (runSpeech [Speak m1 running,
       SynthSettled 0 (Fulfilled (Some ''UklGRg=='')), DecodeSettled 0 (Fulfilled ()),
       Speak m2 running,
       SynthSettled 1 (Fulfilled (Some ''UklGRg=='')), DecodeSettled 1 (Fulfilled ())])
     = [0, 1]"
  by code_simp

subsection \<open>The toggle\<close>

text \<open>
  C2 at one message. A second \<open>handleSpeak(m1)\<close> sets \<open>isSpeakingId\<close> to \<open>null\<close> and
  returns, but it stops nothing. Called while \<open>m1\<close> is playing, it leaves the source on
  the output. Called right after the first call, it leaves that call waiting for its
  synthesis, and when the synthesis and the decoding settle the audio is started: in both
  runs the indicator says idle while audio is audible.
\<close>

theorem toggle_leaves_audio:
  "isSpeakingId (runSpeech [Speak m1 running, Speak m1 running]) = None
   \<and> tasks (runSpeech [Speak m1 running, Speak m1 running]) 0 = Some speakingTask
   \<and> isSpeakingId (runSpeech [Speak m1 running, Speak m1 running,
       SynthSettled 0 (Fulfilled (Some ''UklGRg=='')), DecodeSettled 0 (Fulfilled ())])
     = None
   \<and> audible (runSpeech [Speak m1 running, Speak m1 running,
       SynthSettled 0 (Fulfilled (Some ''UklGRg=='')), DecodeSettled 0 (Fulfilled ())])
     = [0]
   \<and> isSpeakingId (runSpeech [Speak m1 running,
       SynthSettled 0 (Fulfilled (Some ''UklGRg=='')), DecodeSettled 0 (Fulfilled ()),
       Speak m1 running])
     = None
   \<and> audible (runSpeech [Speak m1 running,
       SynthSettled 0 (Fulfilled (Some ''UklGRg=='')), DecodeSettled 0 (Fulfilled ()),
       Speak m1 running])
     = [0]"
  by code_simp

subsection \<open>Failures\<close>

text \<open>
  C8, as stated, fails where auto-speak is on: the \<open>catch\<close> block alerts only
  \<open>if (!autoSpeak)\<close>. With auto-speak on, a synthesis without audio is written to the
  console and the session is idle again, but nothing is shown to the user.
\<close>

theorem failure_unreported_under_autoSpeak:
  "isSpeakingId (runSpeech [ToggleAutoSpeak, Speak m1 running,
       SynthSettled 0 (Fulfilled None)]) = None
   \<and> consoleApp (runSpeech [ToggleAutoSpeak, Speak m1 running,
       SynthSettled 0 (Fulfilled None)]) = [''TTS Error:'']
   \<and> alertsApp (runSpeech [ToggleAutoSpeak, Speak m1 running,
       SynthSettled 0 (Fulfilled None)]) = []"
  by code_simp

text \<open>
  C8, amended. For a call of \<open>handleSpeak\<close> that waits for its synthesis, a missing or
  empty payload and a rejected synthesis all run the \<open>catch\<close> block, and so does a failed
  decoding for a call that waits for it. The \<open>catch\<close> block writes the error to the
  console, alerts the user unless auto-speak was on when the call was made, and clears
  \<open>isSpeakingId\<close> and \<open>speakingLoading\<close>: the session is idle and the call is over.
\<close>

theorem speech_failure_returns_to_idle:
  assumes "tasks s tid = Some t"
  shows "(tphase t = Synthesising \<longrightarrow>
            synthSettled tid (Fulfilled None) s = catchBlock tid t s
          \<and> synthSettled tid (Fulfilled (Some [])) s = catchBlock tid t s
          \<and> synthSettled tid Rejected s = catchBlock tid t s)
       \<and> (tphase t = Decoding \<longrightarrow> decodeSettled tid Rejected s = catchBlock tid t s)
       \<and> isSpeakingId (catchBlock tid t s) = None
       \<and> speakingLoading (catchBlock tid t s) = False
       \<and> tasks (catchBlock tid t s) tid = None
       \<and> audible (catchBlock tid t s) = audible s
       \<and> consoleApp (catchBlock tid t s) = consoleApp s @ [''TTS Error:'']
       \<and> alertsApp (catchBlock tid t s) =
           (if tautoSpeak t then alertsApp s
            else alertsApp s @ [''Failed to generate speech. Please check your API Key.''])"
  using assms by (simp add: synthSettled_def decodeSettled_def catchBlock_def)

theorem speech_failure_returns_to_idle_witness:
  "tasks speaking 0 = Some speakingTask
   \<and> tphase speakingTask = Synthesising
   \<and> isSpeakingId speaking = Some ''m1''
   \<and> isSpeakingId (synthSettled 0 (Fulfilled None) speaking) = None
   \<and> speakingLoading (synthSettled 0 (Fulfilled None) speaking) = False
   \<and> alertsApp (synthSettled 0 (Fulfilled None) speaking)
       = [''Failed to generate speech. Please check your API Key.'']
   \<and> tasks decoding 0 = Some (speakingTask\<lparr>tphase := Decoding\<rparr>)
   \<and> tphase (speakingTask\<lparr>tphase := Decoding\<rparr>) = Decoding
   \<and> isSpeakingId decoding = Some ''m1''
   \<and> isSpeakingId (decodeSettled 0 Rejected decoding) = None
   \<and> alertsApp (decodeSettled 0 Rejected decoding)
       = [''Failed to generate speech. Please check your API Key.'']"
proof -
  have t: "tasks speaking 0 = Some speakingTask"
    by (simp add: speaking_def speakingTask_def runSpeech_def initialApp_def handleSpeak_def
        stopAudio_def suspend_def Let_def m1_def)
  have p: "tphase speakingTask = Synthesising" "tautoSpeak speakingTask = False"
    by (simp_all add: speakingTask_def)
  have i: "isSpeakingId speaking = Some ''m1''" "alertsApp speaking = []"
    by (simp_all add: speaking_def runSpeech_def initialApp_def handleSpeak_def
        stopAudio_def suspend_def Let_def m1_def)
  have t': "tasks decoding 0 = Some (speakingTask\<lparr>tphase := Decoding\<rparr>)"
    using t p by (simp add: decoding_def synthSettled_def)
  have i': "isSpeakingId decoding = Some ''m1''" "alertsApp decoding = []"
    using t p i by (simp_all add: decoding_def synthSettled_def)
  show ?thesis
    using speech_failure_returns_to_idle [OF t] speech_failure_returns_to_idle [OF t']
      t p i t' i'
    by simp
qed

section \<open>Properties of the playback rate\<close>

lemmas parseFloat_defs = parseFloat_def parseUnsigned_def isWhiteSpace_def isDigit_def
  digitsVal_def exponentPart_def scale10_def startsWith_def negate_def Let_def

lemma slider_parse: "map parseFloat sliderValues = map (\<lambda>k. Num (of_nat k / 10)) [5..<21]"
  by (simp add: sliderValues_def parseFloat_defs upt_rec)

lemma slider_in_range: "v \<in> set sliderValues \<Longrightarrow> rateInSpecRange (parseFloat v)"
proof -
  assume "v \<in> set sliderValues"
  then have "parseFloat v \<in> parseFloat ` set sliderValues"
    by (rule imageI)
  then have "parseFloat v \<in> (\<lambda>k. Num (of_nat k / 10)) ` set [5..<21]"
    by (simp only: slider_parse set_map [symmetric])
  then obtain k :: nat where k: "k \<in> set [5..<21]" "parseFloat v = Num (of_nat k / 10)"
    by (rule imageE)
  have "(of_nat k / 10 :: rat) \<in> (\<lambda>k. of_nat k / 10) ` set [5..<21]"
    using k(1) by (rule imageI)
  then show ?thesis
    by (simp only: k(2) rateInSpecRange_def jsnum.case set_map)
qed

text \<open>
  C9, as stated, fails: nothing validates the rate. The mount effect stores whatever
  \<open>parseFloat\<close> makes of the persisted text, so the persisted values \<open>2.5\<close> and \<open>0.3\<close>,
  both outside the range, become the configured rate.
\<close>

theorem persisted_rate_out_of_range_accepted:
  "ttsSpeed (loadSettings (Some ''2.5'') None initialApp) = Num (5 / 2)
   \<and> \<not> rateInSpecRange (Num (5 / 2))
   \<and> ttsSpeed (loadSettings (Some ''0.3'') None initialApp) = Num (3 / 10)
   \<and> \<not> rateInSpecRange (Num (3 / 10))"
  by (simp add: loadSettings_def parseFloat_defs rateInSpecRange_def upt_rec)

text \<open>
  C9, amended. Every value the speed slider can hold (\<open>0.5\<close> to \<open>2.0\<close> in steps of
  \<open>0.1\<close>) lies in the range and is accepted as the configured rate. The code itself checks
  nothing: the slider's handler stores \<open>parseFloat\<close> of any text it is given, and the mount
  effect stores \<open>parseFloat\<close> of any non-empty persisted text.
\<close>

theorem rate_accepted_without_validation:
  "(\<forall>v \<in> set sliderValues.
      ttsSpeed (onSpeedChange v s) = parseFloat v \<and> rateInSpecRange (parseFloat v))
   \<and> ttsSpeed (onSpeedChange v s) = parseFloat v
   \<and> (speed \<noteq> [] \<longrightarrow> ttsSpeed (loadSettings (Some speed) voice s) = parseFloat speed)"
  by (simp add: onSpeedChange_def loadSettings_def Let_def slider_in_range split: option.splits)

theorem rate_accepted_without_validation_witness:
  "''0.5'' \<in> set sliderValues
   \<and> ttsSpeed (onSpeedChange ''0.5'' initialApp) = Num (1 / 2)
   \<and> rateInSpecRange (Num (1 / 2))
   \<and> ''2'' \<in> set sliderValues
   \<and> ttsSpeed (onSpeedChange ''2'' initialApp) = Num 2
   \<and> rateInSpecRange (Num 2)
   \<and> ''2.5'' \<noteq> []
   \<and> ttsSpeed (loadSettings (Some ''2.5'') None initialApp) = Num (5 / 2)"
proof -
  have a: "''0.5'' \<in> set sliderValues" "''2'' \<in> set sliderValues"
    by (simp_all add: sliderValues_def)
  have b: "parseFloat ''0.5'' = Num (1 / 2)" "parseFloat ''2'' = Num 2"
    by (simp_all add: parseFloat_defs)
  have c: "parseFloat ''2.5'' = Num (5 / 2)"
    by (simp add: parseFloat_defs)
  show ?thesis
    using a b c rate_accepted_without_validation [of initialApp "''0.5''" "''2.5''" None]
    by auto
qed

end
